theory Spec2Isabelle
  imports Complex_Main "HOL-Library.AList" "HOL-Library.Multiset"
begin

section \<open>Python values, dictionaries and exceptions\<close>

text \<open>
  The state dictionaries of \<^verbatim>\<open>mouse.py\<close> hold \<^verbatim>\<open>True\<close>, \<^verbatim>\<open>False\<close>,
  \<^verbatim>\<open>None\<close> and strings; integers are included because Python's \<^verbatim>\<open>==\<close>
  identifies \<^verbatim>\<open>0\<close> with \<^verbatim>\<open>False\<close> and \<^verbatim>\<open>1\<close> with \<^verbatim>\<open>True\<close>.
\<close>

datatype pyval = PyNone | PyBool bool | PyInt int | PyStr string

fun py_eq :: "pyval \<Rightarrow> pyval \<Rightarrow> bool" where
  "py_eq PyNone PyNone = True"
| "py_eq (PyBool a) (PyBool b) = (a = b)"
| "py_eq (PyInt a) (PyInt b) = (a = b)"
| "py_eq (PyBool a) (PyInt b) = ((if a then 1 else 0) = b)"
| "py_eq (PyInt a) (PyBool b) = (a = (if b then 1 else 0))"
| "py_eq (PyStr a) (PyStr b) = (a = b)"
| "py_eq _ _ = False"

text \<open>
  A dictionary is an association list with distinct keys.  \<^verbatim>\<open>d.get(k)\<close> is
  \<open>dict_get\<close>, \<^verbatim>\<open>d.pop(k, None)\<close> is \<open>dict_get\<close> followed by \<open>AList.delete\<close>,
  \<^verbatim>\<open>d.pop(k)\<close> raises \<^verbatim>\<open>KeyError\<close> on a missing key, \<^verbatim>\<open>d[k] = v\<close> is
  \<open>AList.update\<close>, and the truth value of a dictionary is \<open>d \<noteq> []\<close>.
\<close>

type_synonym state = "(string \<times> pyval) list"

definition dict_get :: "state \<Rightarrow> string \<Rightarrow> pyval" where
  "dict_get d k = (case map_of d k of None \<Rightarrow> PyNone | Some v \<Rightarrow> v)"

text \<open>
  The exceptions the modelled functions raise:
  \<^item> \<open>KeyError k\<close>: a dictionary lookup without default on the missing key \<open>k\<close>;
  \<^item> \<open>RuntimeError_state s\<close>: \<^verbatim>\<open>RuntimeError('Some state information cannot be
    interpreted: %s' % state)\<close>, carrying the leftover dictionary \<open>s\<close>;
  \<^item> \<open>RuntimeError_trajectory\<close>: \<^verbatim>\<open>RuntimeError('The mouse trajectory has to be
    determined before the transitions can be analyzed.')\<close>;
  \<^item> \<open>ValueError_query q\<close>: \<^verbatim>\<open>ValueError('Unknown query `%s`' % query)\<close>.
\<close>

datatype error =
    KeyError pyval
  | RuntimeError_state state
  | RuntimeError_trajectory
  | ValueError_query string

section \<open>The state codec of \<^verbatim>\<open>mouse.py\<close>\<close>

definition VALID_STATES :: "int list" where
  "VALID_STATES = [0, 10, 11, 12, 13, 20, 21]"

text \<open>
  \<open>state_branches\<close> is the body of \<^verbatim>\<open>state_to_int\<close> up to the final check: it
  returns the value accumulated so far together with what is left of the dictionary, or
  the \<^verbatim>\<open>KeyError\<close> of \<^verbatim>\<open>state.pop('location')\<close>.
\<close>

definition state_branches :: "state \<Rightarrow> error + (int \<times> state)" where
  "state_branches state0 =
     (let value0 = 0;
          underground = dict_get state0 ''underground'';
          state1 = AList.delete ''underground'' state0
      in if py_eq underground (PyBool False) then
           (let value1 = value0 + 10
            in case map_of state1 ''location'' of
                 None \<Rightarrow> Inl (KeyError (PyStr ''location''))
               | Some location \<Rightarrow>
                   (let state2 = AList.delete ''location'' state1
                    in if py_eq location (PyStr ''air'') then Inr (value1 + 1, state2)
                       else if py_eq location (PyStr ''hill'') then Inr (value1 + 2, state2)
                       else if py_eq location (PyStr ''valley'') then Inr (value1 + 3, state2)
                       else Inr (value1, AList.update ''location'' location state2)))
         else if py_eq underground (PyBool True) then
           (let value1 = value0 + 20
            in if py_eq (dict_get state1 ''location'') (PyStr ''burrow'')
               then Inr (value1 + 1, AList.delete ''location'' state1)
               else Inr (value1, state1))
         else Inr (value0, state1))"

definition state_to_int :: "state \<Rightarrow> error + int" where
  "state_to_int state0 =
     (case state_branches state0 of
        Inl e \<Rightarrow> Inl e
      | Inr (v, rest) \<Rightarrow> if rest \<noteq> [] then Inl (RuntimeError_state rest) else Inr v)"

text \<open>
  \<^verbatim>\<open>int_to_state\<close> has no raising statement, so it is a plain function.  Python's
  \<^verbatim>\<open>%\<close> with a positive divisor is the floored remainder, which is \<open>mod\<close> on \<open>int\<close>.
\<close>

definition int_to_state :: "int \<Rightarrow> state" where
  "int_to_state v =
     (let state0 = [];
          value_loc = v mod 10
      in if 10 \<le> value_loc \<and> value_loc < 20 then
           (let state1 = AList.update ''underground'' (PyBool False) state0
            in if value_loc = 11 then AList.update ''location'' (PyStr ''air'') state1
               else if value_loc = 12 then AList.update ''location'' (PyStr ''hill'') state1
               else if value_loc = 13 then AList.update ''location'' (PyStr ''valley'') state1
               else state1)
         else if 20 \<le> value_loc \<and> value_loc < 30 then
           (let state1 = AList.update ''underground'' (PyBool True) state0
            in if value_loc = 21 then AList.update ''location'' (PyStr ''burrow'') state1
               else state1)
         else state0)"

text \<open>
  \<^verbatim>\<open>query_state\<close> on an integer array: the comparisons are elementwise, the
  \<^verbatim>\<open>elif\<close> chain is kept in the order of the source, second \<^verbatim>\<open>'underground'\<close>
  branch included.
\<close>

definition query_state :: "int list \<Rightarrow> string \<Rightarrow> error + bool list" where
  "query_state states query =
     (if query = ''underground'' then Inr (map (\<lambda>s. 10 \<le> s \<and> s < 20) states)
      else if query = ''in_air'' then Inr (map (\<lambda>s. s = 11) states)
      else if query = ''on_hill'' then Inr (map (\<lambda>s. s = 12) states)
      else if query = ''in_valley'' then Inr (map (\<lambda>s. s = 13) states)
      else if query = ''underground'' then Inr (map (\<lambda>s. 20 \<le> s \<and> s < 30) states)
      else if query = ''in_burrow'' then Inr (map (\<lambda>s. s = 21) states)
      else Inl (ValueError_query query))"

section \<open>The analyzer of \<^verbatim>\<open>analyzer.py\<close>\<close>

text \<open>
  \<^verbatim>\<open>MouseTrack\<close> holds the trajectory and one integer state per frame.  Of the
  analyzer, the model keeps the data store (a dictionary from path to value, here the
  entries that are mouse tracks) and the two scales.  The scales are plain numbers, as
  with \<^verbatim>\<open>use_units = False\<close>; the unit registry is left out.  Times are rational
  numbers: the floating point arithmetic of the source is idealised as exact, and its one
  non-finite outcome that matters here, a division by zero, is modelled explicitly below.
\<close>

record MouseTrack =
  pos :: "(rat \<times> rat) list"
  states :: "int list"

record Analyzer =
  data :: "(string \<times> MouseTrack) list"
  time_scale :: rat
  length_scale :: rat

text \<open>
  The table \<^verbatim>\<open>mouse.STATES\<close>, a dictionary from state code to category name, is
  used by \<^verbatim>\<open>analyzer.py\<close> and is not defined in \<^verbatim>\<open>mouse.py\<close>; every function
  that reads it takes it as its first parameter.
\<close>

type_synonym STATES_table = "(int \<times> string) list"

type_synonym transitions = "((int \<times> int) \<times> rat list) list"

text \<open>
  \<^verbatim>\<open>np.nonzero(np.diff(mouse_state) != 0)[0]\<close>: the indices \<open>k\<close>, in increasing
  order, at which the next state differs.  The difference of an empty or one-element
  array is empty.
\<close>

definition change_points :: "int list \<Rightarrow> nat list" where
  "change_points mouse_state =
     filter (\<lambda>k. mouse_state ! (k + 1) - mouse_state ! k \<noteq> 0) [0..<length mouse_state - 1]"

text \<open>
  \<^verbatim>\<open>transitions[trans].append(duration)\<close> on a \<^verbatim>\<open>defaultdict(list)\<close>: a missing
  key is created with the empty list before the append.
\<close>

definition dict_append :: "'k \<Rightarrow> 'v \<Rightarrow> ('k \<times> 'v list) list \<Rightarrow> ('k \<times> 'v list) list" where
  "dict_append k v d =
     (case map_of d k of
        None \<Rightarrow> d @ [(k, [v])]
      | Some vs \<Rightarrow> AList.update k (vs @ [v]) d)"

text \<open>
  The loop of \<^verbatim>\<open>get_mouse_state_transitions\<close> over the change points; the loop
  state is the dictionary and \<^verbatim>\<open>last_trans\<close>.
\<close>

fun transitions_loop ::
  "int list \<Rightarrow> rat \<Rightarrow> int list \<Rightarrow> rat \<Rightarrow> nat list \<Rightarrow> transitions \<times> nat \<Rightarrow> transitions \<times> nat"
where
  "transitions_loop mouse_state ts allowed len_threshold [] (tr, last_trans) = (tr, last_trans)"
| "transitions_loop mouse_state ts allowed len_threshold (k # ks) (tr, last_trans) =
     (let trans = (mouse_state ! k, mouse_state ! (k + 1));
          duration = of_int (int k - int last_trans) * ts
      in transitions_loop mouse_state ts allowed len_threshold ks
           (if fst trans \<in> set allowed \<and> snd trans \<in> set allowed \<and> duration > len_threshold
            then dict_append trans duration tr else tr,
            k))"

text \<open>
  The keyword argument \<^verbatim>\<open>states\<close> is \<open>None\<close> (the default) or a list of codes.
\<close>

definition get_mouse_state_transitions ::
  "STATES_table \<Rightarrow> Analyzer \<Rightarrow> int list option \<Rightarrow> rat \<Rightarrow> error + transitions"
where
  "get_mouse_state_transitions STATES self states_arg len_threshold =
     (case map_of (data self) ''pass2/mouse_trajectory'' of
        None \<Rightarrow> Inl RuntimeError_trajectory
      | Some track \<Rightarrow>
          (let mouse_state = states track;
               allowed = (case states_arg of None \<Rightarrow> map fst STATES | Some s \<Rightarrow> s)
           in Inr (fst (transitions_loop mouse_state (time_scale self) allowed len_threshold
                          (change_points mouse_state) ([], 0)))))"

text \<open>
  Reading \<^verbatim>\<open>transitions[t]\<close> from the returned \<^verbatim>\<open>defaultdict(list)\<close>: the list
  of durations recorded for \<open>t\<close>, empty for a key that was never recorded.
\<close>

definition durations_of :: "transitions \<Rightarrow> int \<times> int \<Rightarrow> rat list" where
  "durations_of d t = (case map_of d t of None \<Rightarrow> [] | Some ls \<Rightarrow> ls)"

text \<open>
  The specification's description of the scan, to compare the loop with: every change
  point \<open>k\<close>, in increasing order, gives the transition from the state at \<open>k\<close> to the
  state at \<open>k + 1\<close>, with the duration \<open>(k - previous) * timeScale\<close>, where
  \<open>previous\<close> is the change point before \<open>k\<close>, and 0 for the first one.
\<close>

definition spec_transition_events :: "int list \<Rightarrow> rat \<Rightarrow> ((int \<times> int) \<times> rat) list" where
  "spec_transition_events mouse_state ts =
     map (\<lambda>(k, previous).
            ((mouse_state ! k, mouse_state ! (k + 1)), of_int (int k - int previous) * ts))
         (zip (change_points mouse_state) (0 # change_points mouse_state))"

subsection \<open>The transition graph\<close>

text \<open>
  A \<^verbatim>\<open>numpy.float64\<close> result: a number, an infinity or not-a-number.
  \<^verbatim>\<open>np.mean\<close> of an empty list is not-a-number; dividing by a zero
  \<^verbatim>\<open>numpy.float64\<close> gives an infinity and a \<^verbatim>\<open>RuntimeWarning\<close>, not an exception.
\<close>

datatype npfloat = Finite rat | Infinite | NaN

definition np_mean :: "rat list \<Rightarrow> npfloat" where
  "np_mean xs = (if xs = [] then NaN else Finite (sum_list xs / of_nat (length xs)))"

fun np_recip :: "npfloat \<Rightarrow> npfloat" where
  "np_recip (Finite m) = (if m = 0 then Infinite else Finite (1 / m))"
| "np_recip Infinite = Finite 0"
| "np_recip NaN = NaN"

text \<open>
  The part of \<^verbatim>\<open>networkx.MultiDiGraph\<close> the source uses.  A node has a
  \<^verbatim>\<open>duration\<close> attribute or none; an edge is \<open>(u, v, rate, count)\<close>.
  \<^verbatim>\<open>add_edge\<close> creates missing end nodes and always adds a new edge, parallel to
  the existing ones between the same nodes; \<^verbatim>\<open>add_node\<close> creates the node or
  updates its attribute.
\<close>

type_synonym edge = "string \<times> string \<times> npfloat \<times> nat"

record MultiDiGraph =
  graph_nodes :: "(string \<times> rat option) list"
  graph_edges :: "edge list"

definition empty_graph :: MultiDiGraph where
  "empty_graph = \<lparr>graph_nodes = [], graph_edges = []\<rparr>"

definition touch_node :: "string \<Rightarrow> (string \<times> rat option) list \<Rightarrow> (string \<times> rat option) list" where
  "touch_node n ns = (case map_of ns n of None \<Rightarrow> ns @ [(n, None)] | Some _ \<Rightarrow> ns)"

definition add_edge :: "string \<Rightarrow> string \<Rightarrow> npfloat \<Rightarrow> nat \<Rightarrow> MultiDiGraph \<Rightarrow> MultiDiGraph" where
  "add_edge u v rate cnt g =
     \<lparr>graph_nodes = touch_node v (touch_node u (graph_nodes g)),
      graph_edges = graph_edges g @ [(u, v, rate, cnt)]\<rparr>"

definition add_node :: "string \<Rightarrow> rat \<Rightarrow> MultiDiGraph \<Rightarrow> MultiDiGraph" where
  "add_node n duration g = g\<lparr>graph_nodes := AList.update n (Some duration) (graph_nodes g)\<rparr>"

text \<open>\<^verbatim>\<open>nodes[u] += x\<close> on a \<^verbatim>\<open>defaultdict(int)\<close>.\<close>

definition dict_add :: "string \<Rightarrow> rat \<Rightarrow> (string \<times> rat) list \<Rightarrow> (string \<times> rat) list" where
  "dict_add k x d =
     (case map_of d k of None \<Rightarrow> d @ [(k, x)] | Some y \<Rightarrow> AList.update k (y + x) d)"

text \<open>
  One round of the first loop of \<^verbatim>\<open>get_mouse_transition_graph\<close> computes the edge
  of a record: the two category names (a \<^verbatim>\<open>KeyError\<close> for a code that is not in
  the table), the rate and the count.
\<close>

definition record_edge :: "STATES_table \<Rightarrow> (int \<times> int) \<times> rat list \<Rightarrow> error + edge" where
  "record_edge STATES item =
     (let trans = fst item; lengths = snd item
      in case map_of STATES (fst trans) of
           None \<Rightarrow> Inl (KeyError (PyInt (fst trans)))
         | Some u \<Rightarrow>
             (case map_of STATES (snd trans) of
                None \<Rightarrow> Inl (KeyError (PyInt (snd trans)))
              | Some v \<Rightarrow> Inr (u, v, np_recip (np_mean lengths), length lengths)))"

fun graph_loop ::
  "STATES_table \<Rightarrow> transitions \<Rightarrow> MultiDiGraph \<times> (string \<times> rat) list
   \<Rightarrow> error + (MultiDiGraph \<times> (string \<times> rat) list)"
where
  "graph_loop STATES [] (graph, nodes_acc) = Inr (graph, nodes_acc)"
| "graph_loop STATES (item # items) (graph, nodes_acc) =
     (case record_edge STATES item of
        Inl e \<Rightarrow> Inl e
      | Inr (u, v, rate, cnt) \<Rightarrow>
          graph_loop STATES items
            (add_edge u v rate cnt graph, dict_add u (sum_list (snd item)) nodes_acc))"

text \<open>
  The dictionary is iterated in the order of the association list; a Python 2
  dictionary fixes no order, so the statements about the graph below do not depend on it.
\<close>

definition get_mouse_transition_graph ::
  "STATES_table \<Rightarrow> Analyzer \<Rightarrow> int list option \<Rightarrow> rat \<Rightarrow> error + MultiDiGraph"
where
  "get_mouse_transition_graph STATES self states_arg len_threshold =
     (case get_mouse_state_transitions STATES self states_arg len_threshold of
        Inl e \<Rightarrow> Inl e
      | Inr tr \<Rightarrow>
          (case graph_loop STATES tr (empty_graph, []) of
             Inl e \<Rightarrow> Inl e
           | Inr (graph, nodes_acc) \<Rightarrow>
               Inr (fold (\<lambda>(node, duration) g. add_node node duration g) nodes_acc graph)))"

subsection \<open>Example inputs\<close>

text \<open>
  A table with the seven codes of \<open>VALID_STATES\<close> as keys, in which the two underground
  codes share a category, and an analyzer over a given state sequence with time scale 1.
\<close>

definition STATES_example :: STATES_table where
  "STATES_example =
     [(0, ''unknown''), (10, ''sand''), (11, ''air''), (12, ''hill''), (13, ''valley''),
      (20, ''burrow''), (21, ''burrow'')]"

definition analyzer_of :: "int list \<Rightarrow> Analyzer" where
  "analyzer_of sts =
     \<lparr>data = [(''pass2/mouse_trajectory'', \<lparr>pos = [], states = sts\<rparr>)],
      time_scale = 1, length_scale = 1\<rparr>"

section \<open>Properties of the state codec\<close>

lemma value_loc_below_10: "\<not> 10 \<le> (v::int) mod 10"
proof -
  have "v mod 10 < 10" by simp
  then show ?thesis by linarith
qed

lemma int_to_state_empty: "int_to_state v = []"
  unfolding int_to_state_def Let_def
  using value_loc_below_10 [of v] by auto

lemma state_to_int_empty: "state_to_int [] = Inr 0"
  by (simp add: state_to_int_def state_branches_def dict_get_def)

text \<open>
  Claim C1 (round trip on the codes 10, 11, 12, 13, 20, 21).  The residue used by
  \<^verbatim>\<open>int_to_state\<close> is \<^verbatim>\<open>value % 10\<close>, which never reaches 10, so every code
  decodes to the empty dictionary and encoding that gives 0.  Evaluated at the code 11:
  decoding gives \<open>[]\<close> instead of underground False with location air, and the round
  trip returns 0 instead of 11.
\<close>

theorem round_trip_fails_at_11:
  "int_to_state 11 = [] \<and> state_to_int (int_to_state 11) = Inr 0"
  by (simp add: int_to_state_empty state_to_int_empty)

text \<open>
  Claim C3 (underground False with no location encodes to 10).  The source reads the
  location with \<^verbatim>\<open>state.pop('location')\<close>, without a default, so the dictionary
  \<^verbatim>\<open>{'underground': False}\<close> raises \<^verbatim>\<open>KeyError('location')\<close>; the sibling branch for
  underground True reads it with \<^verbatim>\<open>state.get('location')\<close> and returns 20.
\<close>

theorem state_to_int_overground_no_location:
  "state_to_int [(''underground'', PyBool False)] = Inl (KeyError (PyStr ''location''))
   \<and> state_to_int [(''underground'', PyBool True)] = Inr 20"
  by (simp add: state_to_int_def state_branches_def dict_get_def)

text \<open>
  Claim C6: for every integer state sequence, \<^verbatim>\<open>query_state(states, 'underground')\<close>
  returns the elementwise truth value of \<open>10 \<le> state < 20\<close>; the second branch under
  the same name, for the range from 20 to 30, is never reached.
\<close>

theorem query_state_underground:
  "query_state sts ''underground'' = Inr (map (\<lambda>s. 10 \<le> s \<and> s < 20) sts)"
  by (simp add: query_state_def)

text \<open>
  Claim C7: decoding is total.  \<^verbatim>\<open>int_to_state\<close> has no failing branch and returns a
  dictionary for every integer \<open>x\<close>, negative, between 0 and 10, or from 30 on; the
  result is the empty dictionary (no \<^verbatim>\<open>underground\<close>, no \<^verbatim>\<open>location\<close>) for every
  \<open>x\<close>, hence for every code outside the recognised residues.
\<close>

theorem int_to_state_total:
  "int_to_state x = [] \<and> map_of (int_to_state x) ''underground'' = None
   \<and> map_of (int_to_state x) ''location'' = None"
  by (simp add: int_to_state_empty)

text \<open>
  Claim C8: when the branches of \<^verbatim>\<open>state_to_int\<close> finish and leave a non-empty
  dictionary \<open>rest\<close>, the call raises the \<^verbatim>\<open>RuntimeError\<close> that carries \<open>rest\<close>, and
  returns no code.  The witness is the dictionary
  \<^verbatim>\<open>{'underground': False, 'location': 'nonexistent'}\<close>, whose leftover is
  \<^verbatim>\<open>{'location': 'nonexistent'}\<close>.
\<close>

theorem state_to_int_leftover:
  assumes "state_branches st = Inr (v, rest)" and "rest \<noteq> []"
  shows "state_to_int st = Inl (RuntimeError_state rest) \<and> (\<forall>c. state_to_int st \<noteq> Inr c)"
  using assms by (simp add: state_to_int_def)

theorem state_to_int_leftover_witness:
  "state_branches [(''underground'', PyBool False), (''location'', PyStr ''nonexistent'')]
     = Inr (10, [(''location'', PyStr ''nonexistent'')])
   \<and> [(''location'', PyStr ''nonexistent'')] \<noteq> []
   \<and> state_to_int [(''underground'', PyBool False), (''location'', PyStr ''nonexistent'')]
     = Inl (RuntimeError_state [(''location'', PyStr ''nonexistent'')])"
proof -
  have b: "state_branches [(''underground'', PyBool False), (''location'', PyStr ''nonexistent'')]
     = Inr (10, [(''location'', PyStr ''nonexistent'')])"
    by (simp add: state_branches_def dict_get_def)
  have n: "[(''location'', PyStr ''nonexistent'')] \<noteq> []" by simp
  show ?thesis using b n state_to_int_leftover [OF b n] by simp
qed

text \<open>
  A key other than \<^verbatim>\<open>underground\<close> and \<^verbatim>\<open>location\<close> is never consumed, so a
  dictionary that has one is always rejected.
\<close>

lemma state_branches_keeps_other_keys:
  assumes "map_of st k = Some x" and "k \<noteq> ''underground''" and "k \<noteq> ''location''"
    and "state_branches st = Inr (v, rest)"
  shows "map_of rest k = Some x"
  using assms
  by (auto simp: state_branches_def Let_def delete_conv update_conv
      split: if_splits option.splits)

lemma state_to_int_unknown_key:
  assumes "map_of st k = Some x" and "k \<noteq> ''underground''" and "k \<noteq> ''location''"
  shows "\<exists>e. state_to_int st = Inl e"
proof (cases "state_branches st")
  case (Inl e)
  then show ?thesis by (simp add: state_to_int_def)
next
  case (Inr p)
  obtain v rest where p: "p = (v, rest)" by (cases p)
  from state_branches_keeps_other_keys [OF assms Inr [unfolded p]] have "rest \<noteq> []" by auto
  then show ?thesis by (simp add: state_to_int_def Inr p)
qed

section \<open>Properties of the analyzer\<close>

lemma STATES_example_keys: "map fst STATES_example = VALID_STATES"
  by (simp add: STATES_example_def VALID_STATES_def)

lemma analyzer_of_trajectory:
  "map_of (data (analyzer_of sts)) ''pass2/mouse_trajectory'' = Some \<lparr>pos = [], states = sts\<rparr>"
  by (simp add: analyzer_of_def)

subsection \<open>The scenario of six frames\<close>

text \<open>
  Claim C2: for the states 10, 10, 10, 11, 11, 12 with time scale 1, the default codes
  and threshold 0, the transition from 10 to 11 has the single duration 3 and the one
  from 11 to 12 the single duration 2, the number of frames spent in each state.  The
  loop starts with \<^verbatim>\<open>last_trans = 0\<close> and takes the differences of the change points
  2 and 4, so it returns the duration 2 for the first dwell of three frames, one frame
  short.  Every later dwell is measured by its number of frames: when the same three
  frames in state 10 do not open the sequence, the loop returns 3 and 2; two dwells of
  three frames each get the durations 2 and 3; and a first dwell of one frame gets the
  duration 0 and is dropped by the threshold 0.
\<close>

theorem first_dwell_one_frame_short:
  "get_mouse_state_transitions STATES_example (analyzer_of [10, 10, 10, 11, 11, 12]) None 0
     = Inr [((10, 11), [2]), ((11, 12), [2])]
   \<and> get_mouse_state_transitions STATES_example (analyzer_of [12, 10, 10, 10, 11, 11, 12]) None 0
     = Inr [((10, 11), [3]), ((11, 12), [2])]
   \<and> get_mouse_state_transitions STATES_example (analyzer_of [10, 10, 10, 11, 11, 11, 12]) None 0
     = Inr [((10, 11), [2]), ((11, 12), [3])]
   \<and> get_mouse_state_transitions STATES_example (analyzer_of [10, 11, 12]) None 0
     = Inr [((11, 12), [1])]"
  by code_simp

subsection \<open>Empty sequence and missing trajectory\<close>

text \<open>
  Claim C9: when the trajectory is present and its state sequence is empty, the
  extraction returns the empty dictionary without raising; when the data store has no
  trajectory, it raises the \<^verbatim>\<open>RuntimeError\<close> for the missing trajectory.  The two
  outcomes differ, whatever the allowed codes and the threshold.
\<close>

theorem empty_sequence_and_missing_trajectory:
  "(map_of (data a) ''pass2/mouse_trajectory'' = Some track \<and> states track = []
      \<longrightarrow> get_mouse_state_transitions STATES a sts thr = Inr [])
   \<and> (map_of (data a) ''pass2/mouse_trajectory'' = None
      \<longrightarrow> get_mouse_state_transitions STATES a sts thr = Inl RuntimeError_trajectory)"
  by (simp add: get_mouse_state_transitions_def change_points_def)

theorem empty_sequence_and_missing_trajectory_witness:
  "map_of (data (analyzer_of [])) ''pass2/mouse_trajectory'' = Some \<lparr>pos = [], states = []\<rparr>
   \<and> get_mouse_state_transitions STATES_example (analyzer_of []) None 0 = Inr []
   \<and> map_of (data \<lparr>data = [], time_scale = 1, length_scale = 1\<rparr>) ''pass2/mouse_trajectory'' = None
   \<and> get_mouse_state_transitions STATES_example \<lparr>data = [], time_scale = 1, length_scale = 1\<rparr>
        None 0 = Inl RuntimeError_trajectory"
proof -
  have 1: "map_of (data (analyzer_of [])) ''pass2/mouse_trajectory''
      = Some \<lparr>pos = [], states = []\<rparr>"
    by (rule analyzer_of_trajectory)
  have 2: "map_of (data \<lparr>data = [], time_scale = 1, length_scale = 1\<rparr>)
      ''pass2/mouse_trajectory'' = None"
    by simp
  from 1 empty_sequence_and_missing_trajectory
    [of "analyzer_of []" "\<lparr>pos = [], states = []\<rparr>" STATES_example None 0]
  have 3: "get_mouse_state_transitions STATES_example (analyzer_of []) None 0 = Inr []"
    by simp
  from 2 empty_sequence_and_missing_trajectory
    [of "\<lparr>data = [], time_scale = 1, length_scale = 1\<rparr>" _ STATES_example None 0]
  have 4: "get_mouse_state_transitions STATES_example
      \<lparr>data = [], time_scale = 1, length_scale = 1\<rparr> None 0 = Inl RuntimeError_trajectory"
    by simp
  from 1 2 3 4 show ?thesis by blast
qed

subsection \<open>The loop against the description of the scan\<close>

lemma transitions_loop_fold:
  "fst (transitions_loop ms ts al thr ks (tr, last_trans)) =
   fold (\<lambda>(t, d) acc. dict_append t d acc)
     (filter (\<lambda>(t, d). fst t \<in> set al \<and> snd t \<in> set al \<and> thr < d)
        (map (\<lambda>(k, previous). ((ms ! k, ms ! (k + 1)), of_int (int k - int previous) * ts))
           (zip ks (last_trans # ks))))
     tr"
  by (induction ks arbitrary: tr last_trans) (simp_all add: Let_def)

lemma durations_of_dict_append:
  "durations_of (dict_append t d acc) t' =
   (if t' = t then durations_of acc t' @ [d] else durations_of acc t')"
  by (auto simp: durations_of_def dict_append_def update_conv map_add_def
      split: option.splits)

lemma durations_of_fold:
  "durations_of (fold (\<lambda>(t, d) acc. dict_append t d acc) evs acc) t' =
   durations_of acc t' @ map snd (filter (\<lambda>(t, d). t = t') evs)"
  by (induction evs arbitrary: acc) (auto simp: durations_of_dict_append)

lemma distinct_dict_append:
  "distinct (map fst acc) \<Longrightarrow> distinct (map fst (dict_append t d acc))"
  by (auto simp: dict_append_def distinct_update map_of_eq_None_iff split: option.splits)

lemma distinct_fold_dict_append:
  "distinct (map fst acc) \<Longrightarrow>
   distinct (map fst (fold (\<lambda>(t, d) acc. dict_append t d acc) evs acc))"
  by (induction evs arbitrary: acc) (auto simp: distinct_dict_append)

lemma set_update_subset: "set (AList.update k v al) \<subseteq> insert (k, v) (set al)"
  by (induction al) auto

lemma dict_append_nonempty:
  assumes "[] \<notin> snd ` set acc"
  shows "[] \<notin> snd ` set (dict_append t d acc)"
proof (cases "map_of acc t")
  case None
  then show ?thesis using assms by (auto simp: dict_append_def)
next
  case (Some vs)
  have "snd ` set (AList.update t (vs @ [d]) acc) \<subseteq> insert (vs @ [d]) (snd ` set acc)"
    using set_update_subset [of t "vs @ [d]" acc] by force
  then show ?thesis using assms Some by (auto simp: dict_append_def)
qed

lemma fold_dict_append_nonempty:
  "[] \<notin> snd ` set acc \<Longrightarrow>
   [] \<notin> snd ` set (fold (\<lambda>(t, d) acc. dict_append t d acc) evs acc)"
proof (induction evs arbitrary: acc)
  case Nil
  then show ?case by simp
next
  case (Cons ev evs)
  obtain t d where ev: "ev = (t, d)" by (cases ev)
  from Cons.prems have "[] \<notin> snd ` set (dict_append t d acc)"
    by (rule dict_append_nonempty)
  from Cons.IH [OF this] show ?case by (simp add: ev)
qed

lemma zip_shift_sorted:
  "sorted (p # xs) \<Longrightarrow> (k, previous) \<in> set (zip xs (p # xs)) \<Longrightarrow> previous \<le> k"
  by (induction xs arbitrary: p) auto

lemma sorted_change_points: "sorted (0 # change_points ms)"
  by (simp add: change_points_def sorted_wrt_filter)

lemma spec_transition_events_nonneg:
  assumes "0 \<le> ts" and "(t, dur) \<in> set (spec_transition_events ms ts)"
  shows "0 \<le> dur"
proof -
  from assms(2) obtain k previous
    where kp: "(k, previous) \<in> set (zip (change_points ms) (0 # change_points ms))"
      and dur: "dur = of_int (int k - int previous) * ts"
    by (auto simp: spec_transition_events_def)
  from zip_shift_sorted [OF sorted_change_points kp] have "previous \<le> k" .
  then show ?thesis using assms(1) by (simp add: dur)
qed

text \<open>
  Claim C5, as stated: with the allowed codes left at their default, every change point
  whose duration exceeds the threshold is recorded, whatever codes it connects.  With
  the table \<open>STATES_example\<close>, the states 30, 30, 31 have one change point, from 30 to
  31 with duration 1, above the threshold 0, and nothing is recorded: the default is the
  list of the keys of the table, and 30 and 31 are not among them.
\<close>

theorem default_states_filter_example:
  "spec_transition_events [30, 30, 31] 1 = [((30, 31), 1)]
   \<and> get_mouse_state_transitions STATES_example (analyzer_of [30, 30, 31]) None 0 = Inr []"
  by code_simp

text \<open>
  Claim C5, amended: with the allowed codes left at their default, the allowed codes are
  the keys of the table \<^verbatim>\<open>mouse.STATES\<close>.  For every state sequence the extraction
  returns a dictionary in which the durations of a transition \<open>t\<close> are, in scan order,
  those of the change points that make the transition \<open>t\<close>, whose two codes are keys of
  the table and whose duration strictly exceeds the threshold.  With threshold 0 and a
  time scale that is not negative, a change point between two keys of the table is left
  out exactly when its duration is zero.
\<close>

theorem default_states_are_STATES_keys:
  assumes "map_of (data a) ''pass2/mouse_trajectory'' = Some track"
  shows "\<exists>d. get_mouse_state_transitions STATES a None thr = Inr d
      \<and> distinct (map fst d) \<and> [] \<notin> snd ` set d
      \<and> (\<forall>t. durations_of d t =
            map snd (filter (\<lambda>(t', dur). t' = t \<and> fst t \<in> set (map fst STATES)
                               \<and> snd t \<in> set (map fst STATES) \<and> thr < dur)
                       (spec_transition_events (states track) (time_scale a))))
      \<and> (thr = 0 \<and> 0 \<le> time_scale a \<longrightarrow>
          (\<forall>t. durations_of d t =
            map snd (filter (\<lambda>(t', dur). t' = t \<and> fst t \<in> set (map fst STATES)
                               \<and> snd t \<in> set (map fst STATES) \<and> dur \<noteq> 0)
                       (spec_transition_events (states track) (time_scale a)))))"
proof -
  let ?evs = "spec_transition_events (states track) (time_scale a)"
  let ?keys = "set (map fst STATES)"
  define d where "d = fst (transitions_loop (states track) (time_scale a) (map fst STATES) thr
      (change_points (states track)) ([], 0))"
  have res: "get_mouse_state_transitions STATES a None thr = Inr d"
    using assms by (simp add: get_mouse_state_transitions_def d_def Let_def)
  have fold: "d = fold (\<lambda>(t, d) acc. dict_append t d acc)
      (filter (\<lambda>(t, d). fst t \<in> ?keys \<and> snd t \<in> ?keys \<and> thr < d) ?evs) []"
    unfolding d_def transitions_loop_fold spec_transition_events_def ..
  have dist: "distinct (map fst d)"
    unfolding fold by (rule distinct_fold_dict_append) simp
  have nonempty: "[] \<notin> snd ` set d"
    unfolding fold by (rule fold_dict_append_nonempty) simp
  have look: "durations_of d t =
      map snd (filter (\<lambda>(t', dur). t' = t \<and> fst t \<in> ?keys \<and> snd t \<in> ?keys \<and> thr < dur) ?evs)"
    for t
  proof -
    have "filter (\<lambda>(t', d). t' = t)
        (filter (\<lambda>(t, d). fst t \<in> ?keys \<and> snd t \<in> ?keys \<and> thr < d) ?evs)
      = filter (\<lambda>(t', dur). t' = t \<and> fst t \<in> ?keys \<and> snd t \<in> ?keys \<and> thr < dur) ?evs"
      by (auto intro: filter_cong)
    then show ?thesis
      unfolding fold durations_of_fold by (simp add: durations_of_def)
  qed
  have zero: "durations_of d t =
      map snd (filter (\<lambda>(t', dur). t' = t \<and> fst t \<in> ?keys \<and> snd t \<in> ?keys \<and> dur \<noteq> 0) ?evs)"
    if "thr = 0" "0 \<le> time_scale a" for t
  proof -
    have "filter (\<lambda>(t', dur). t' = t \<and> fst t \<in> ?keys \<and> snd t \<in> ?keys \<and> thr < dur) ?evs
      = filter (\<lambda>(t', dur). t' = t \<and> fst t \<in> ?keys \<and> snd t \<in> ?keys \<and> dur \<noteq> 0) ?evs"
      using spec_transition_events_nonneg [OF that(2)] that(1)
      by (intro filter_cong) (auto simp: less_le)
    then show ?thesis by (simp add: look)
  qed
  from res dist nonempty look zero show ?thesis by blast
qed

theorem default_states_are_STATES_keys_witness:
  "map_of (data (analyzer_of [10, 11, 11, 12, 11, 12])) ''pass2/mouse_trajectory''
     = Some \<lparr>pos = [], states = [10, 11, 11, 12, 11, 12]\<rparr>
   \<and> 0 \<le> time_scale (analyzer_of [10, 11, 11, 12, 11, 12])
   \<and> (\<exists>d. get_mouse_state_transitions STATES_example
             (analyzer_of [10, 11, 11, 12, 11, 12]) None 0 = Inr d
          \<and> durations_of d (10, 11) = [] \<and> durations_of d (11, 12) = [2, 1])"
proof -
  let ?sts = "[10, 11, 11, 12, 11, 12] :: int list"
  have h: "map_of (data (analyzer_of ?sts)) ''pass2/mouse_trajectory''
      = Some \<lparr>pos = [], states = ?sts\<rparr>"
    by (rule analyzer_of_trajectory)
  have ts: "time_scale (analyzer_of ?sts) = 1"
    by (simp add: analyzer_of_def)
  have ev: "spec_transition_events ?sts 1
      = [((10, 11), 0), ((11, 12), 2), ((12, 11), 1), ((11, 12), 1)]"
    by code_simp
  from default_states_are_STATES_keys [OF h, of STATES_example 0]
  obtain d where d: "get_mouse_state_transitions STATES_example (analyzer_of ?sts) None 0 = Inr d"
    and z: "\<forall>t. durations_of d t =
            map snd (filter (\<lambda>(t', dur). t' = t \<and> fst t \<in> set (map fst STATES_example)
                               \<and> snd t \<in> set (map fst STATES_example) \<and> dur \<noteq> 0)
                       (spec_transition_events (states \<lparr>pos = [], states = ?sts\<rparr>)
                          (time_scale (analyzer_of ?sts))))"
    using ts by auto
  have a: "durations_of d (10, 11) = []"
    using z by (simp add: ts ev STATES_example_def)
  have b: "durations_of d (11, 12) = [2, 1]"
    using z by (simp add: ts ev STATES_example_def)
  from h ts d a b show ?thesis by auto
qed

subsection \<open>The edges of the transition graph\<close>

lemma graph_loop_edges:
  "graph_loop STATES items (g, ns) = Inr (g', ns') \<Longrightarrow>
   map Inr (graph_edges g') = map Inr (graph_edges g) @ map (record_edge STATES) items"
proof (induction items arbitrary: g ns)
  case Nil
  then show ?case by simp
next
  case (Cons item items)
  then show ?case
    by (auto simp: add_edge_def split: sum.splits)
qed

lemma graph_loop_succeeds:
  "\<forall>r \<in> set items. \<exists>e. record_edge STATES r = Inr e \<Longrightarrow>
   \<exists>g' ns'. graph_loop STATES items (g, ns) = Inr (g', ns')"
proof (induction items arbitrary: g ns)
  case Nil
  then show ?case by simp
next
  case (Cons item items)
  then obtain u v rate cnt where e: "record_edge STATES item = Inr (u, v, rate, cnt)"
    by (metis list.set_intros(1) prod_cases4)
  from Cons.prems have "\<forall>r \<in> set items. \<exists>e. record_edge STATES r = Inr e" by simp
  from Cons.IH [OF this] show ?case using e by simp
qed

lemma add_nodes_edges:
  "graph_edges (fold (\<lambda>(node, duration) g. add_node node duration g) ns g) = graph_edges g"
  by (induction ns arbitrary: g) (auto simp: add_node_def)

lemma transition_graph_edges:
  assumes "get_mouse_state_transitions STATES a sts thr = Inr tr"
    and "get_mouse_transition_graph STATES a sts thr = Inr g"
  shows "map Inr (graph_edges g) = map (record_edge STATES) tr"
proof -
  from assms obtain g' ns' where l: "graph_loop STATES tr (empty_graph, []) = Inr (g', ns')"
    and g: "g = fold (\<lambda>(node, duration) g. add_node node duration g) ns' g'"
    by (auto simp: get_mouse_transition_graph_def split: sum.splits)
  from graph_loop_edges [OF l] have "map Inr (graph_edges g') = map (record_edge STATES) tr"
    by (simp add: empty_graph_def)
  then show ?thesis by (simp add: g add_nodes_edges)
qed

lemma filter_length_map_eq:
  "map f xs = map h ys \<Longrightarrow>
   length (filter (\<lambda>x. Q (f x)) xs) = length (filter (\<lambda>y. Q (h y)) ys)"
  by (induction xs arbitrary: ys) auto

lemma two_members_filter:
  assumes "x \<in> set xs" "y \<in> set xs" "x \<noteq> y" "P x" "P y"
  shows "2 \<le> length (filter P xs)"
proof -
  have "{x, y} \<subseteq> set (filter P xs)" using assms by simp
  then have "card {x, y} \<le> card (set (filter P xs))" by (intro card_mono) auto
  also have "\<dots> \<le> length (filter P xs)" by (rule card_length)
  finally show ?thesis using assms(3) by simp
qed

text \<open>
  Claim C4, as stated: two records whose code pairs have the same category pair give one
  edge, with the sum of the counts and the rate of the concatenated durations.  With the
  table \<open>STATES_example\<close>, in which 20 and 21 are both \<^verbatim>\<open>burrow\<close>, the states
  13, 13, 20, 13, 13, 13, 21 give the records \<open>(13, 20)\<close> with the duration 1 and
  \<open>(13, 21)\<close> with the duration 3.  The graph has two edges from \<^verbatim>\<open>valley\<close> to
  \<^verbatim>\<open>burrow\<close>, with count 1 and the rates 1 and 1/3, and no edge with count 2 and
  rate 1/2.
\<close>

theorem parallel_edges_example:
  "get_mouse_state_transitions STATES_example (analyzer_of [13, 13, 20, 13, 13, 13, 21]) None 0
     = Inr [((13, 20), [1]), ((20, 13), [1]), ((13, 21), [3])]
   \<and> get_mouse_transition_graph STATES_example (analyzer_of [13, 13, 20, 13, 13, 13, 21]) None 0
     = Inr \<lparr>graph_nodes = [(''valley'', Some 4), (''burrow'', Some 1)],
            graph_edges =
              [(''valley'', ''burrow'', Finite 1, 1),
               (''burrow'', ''valley'', Finite 1, 1),
               (''valley'', ''burrow'', Finite (1 / 3), 1)]\<rparr>
   \<and> (''valley'', ''burrow'', Finite (1 / 2), 2)
       \<notin> set (graph_edges (projr (get_mouse_transition_graph STATES_example
             (analyzer_of [13, 13, 20, 13, 13, 13, 21]) None 0)))"
  by code_simp

text \<open>
  Claim C4, amended: the graph is a multigraph with one edge for each transition record,
  whose count is the number of durations of that record and whose rate is 1 / mean of
  the durations of that record.  For every transition-record map in which two distinct
  code pairs map to the same category pair, the graph has (at least) two parallel edges
  for that category pair, one for each of the two records with that record's own rate
  and count; nothing is merged.
\<close>

theorem parallel_edges_not_merged:
  assumes tr: "get_mouse_state_transitions STATES a sts thr = Inr tr"
    and g: "get_mouse_transition_graph STATES a sts thr = Inr g"
    and r1: "(t1, l1) \<in> set tr" and r2: "(t2, l2) \<in> set tr" and ne: "t1 \<noteq> t2"
    and u: "map_of STATES (fst t1) = Some u" "map_of STATES (fst t2) = Some u"
    and v: "map_of STATES (snd t1) = Some v" "map_of STATES (snd t2) = Some v"
  shows "image_mset Inr (mset (graph_edges g)) = image_mset (record_edge STATES) (mset tr)
    \<and> (u, v, np_recip (np_mean l1), length l1) \<in> set (graph_edges g)
    \<and> (u, v, np_recip (np_mean l2), length l2) \<in> set (graph_edges g)
    \<and> 2 \<le> length (filter (\<lambda>e. fst e = u \<and> fst (snd e) = v) (graph_edges g))"
proof -
  let ?P = "\<lambda>e. fst e = u \<and> fst (snd e) = v"
  let ?Q = "\<lambda>x. case x of Inl _ \<Rightarrow> False | Inr e \<Rightarrow> ?P e"
  have m: "map Inr (graph_edges g) = map (record_edge STATES) tr"
    by (rule transition_graph_edges [OF tr g])
  have e1: "record_edge STATES (t1, l1) = Inr (u, v, np_recip (np_mean l1), length l1)"
    using u v by (simp add: record_edge_def Let_def)
  have e2: "record_edge STATES (t2, l2) = Inr (u, v, np_recip (np_mean l2), length l2)"
    using u v by (simp add: record_edge_def Let_def)
  have A: "image_mset Inr (mset (graph_edges g)) = image_mset (record_edge STATES) (mset tr)"
    using m by (metis mset_map)
  have "Inr (u, v, np_recip (np_mean l1), length l1) \<in> set (map (record_edge STATES) tr)"
    using r1 e1 by force
  then have B: "(u, v, np_recip (np_mean l1), length l1) \<in> set (graph_edges g)"
    unfolding m [symmetric] by auto
  have "Inr (u, v, np_recip (np_mean l2), length l2) \<in> set (map (record_edge STATES) tr)"
    using r2 e2 by force
  then have C: "(u, v, np_recip (np_mean l2), length l2) \<in> set (graph_edges g)"
    unfolding m [symmetric] by auto
  from filter_length_map_eq [OF m, where Q = ?Q]
  have "length (filter ?P (graph_edges g))
      = length (filter (\<lambda>r. ?Q (record_edge STATES r)) tr)"
    by simp
  moreover have "2 \<le> length (filter (\<lambda>r. ?Q (record_edge STATES r)) tr)"
    by (rule two_members_filter [OF r1 r2]) (use ne e1 e2 in auto)
  ultimately have D: "2 \<le> length (filter ?P (graph_edges g))" by simp
  from A B C D show ?thesis by blast
qed

theorem parallel_edges_not_merged_witness:
  "get_mouse_state_transitions STATES_example (analyzer_of [13, 13, 20, 13, 13, 13, 21]) None 0
     = Inr [((13, 20), [1]), ((20, 13), [1]), ((13, 21), [3])]
   \<and> (13 :: int, 20 :: int) \<noteq> (13, 21)
   \<and> map_of STATES_example 13 = Some ''valley''
   \<and> map_of STATES_example 20 = Some ''burrow''
   \<and> map_of STATES_example 21 = Some ''burrow''
   \<and> (\<exists>g. get_mouse_transition_graph STATES_example
              (analyzer_of [13, 13, 20, 13, 13, 13, 21]) None 0 = Inr g
          \<and> (''valley'', ''burrow'', Finite 1, 1) \<in> set (graph_edges g)
          \<and> (''valley'', ''burrow'', Finite (1 / 3), 1) \<in> set (graph_edges g)
          \<and> 2 \<le> length (filter (\<lambda>e. fst e = ''valley'' \<and> fst (snd e) = ''burrow'')
                          (graph_edges g)))"
proof -
  let ?a = "analyzer_of [13, 13, 20, 13, 13, 13, 21]"
  let ?tr = "[((13, 20), [1]), ((20, 13), [1]), ((13, 21), [3])] :: transitions"
  have tr: "get_mouse_state_transitions STATES_example ?a None 0 = Inr ?tr"
    by code_simp
  define g where "g = \<lparr>graph_nodes = [(''valley'', Some 4), (''burrow'', Some 1)],
      graph_edges = [(''valley'', ''burrow'', Finite 1, 1), (''burrow'', ''valley'', Finite 1, 1),
        (''valley'', ''burrow'', Finite (1 / 3), 1)]\<rparr>"
  have g: "get_mouse_transition_graph STATES_example ?a None 0 = Inr g"
    unfolding g_def by code_simp
  have r1: "((13, 20), [1]) \<in> set ?tr" and r2: "((13, 21), [3]) \<in> set ?tr" by simp_all
  have ne: "(13 :: int, 20 :: int) \<noteq> (13, 21)" by simp
  have u: "map_of STATES_example (fst (13 :: int, 20 :: int)) = Some ''valley''"
    "map_of STATES_example (fst (13 :: int, 21 :: int)) = Some ''valley''"
    by (simp_all add: STATES_example_def)
  have v: "map_of STATES_example (snd (13 :: int, 20 :: int)) = Some ''burrow''"
    "map_of STATES_example (snd (13 :: int, 21 :: int)) = Some ''burrow''"
    by (simp_all add: STATES_example_def)
  have m: "np_recip (np_mean [1]) = Finite 1" "np_recip (np_mean [3]) = Finite (1 / 3)"
    by (simp_all add: np_mean_def)
  from parallel_edges_not_merged [OF tr g r1 r2 ne u v] m
  have "(''valley'', ''burrow'', Finite 1, 1) \<in> set (graph_edges g)
    \<and> (''valley'', ''burrow'', Finite (1 / 3), 1) \<in> set (graph_edges g)
    \<and> 2 \<le> length (filter (\<lambda>e. fst e = ''valley'' \<and> fst (snd e) = ''burrow'') (graph_edges g))"
    by simp
  with tr g ne u v show ?thesis by simp
qed

text \<open>
  Claim C10, as stated: a record whose durations have mean exactly 0 makes the graph
  computation raise a domain error.  With the threshold -1 the states 10, 11 give the
  record \<open>(10, 11)\<close> with the single duration 0; the graph computation returns a graph,
  and the rate of the edge is infinite.
\<close>

theorem zero_mean_example:
  "get_mouse_state_transitions STATES_example (analyzer_of [10, 11]) None (- 1)
     = Inr [((10, 11), [0])]
   \<and> get_mouse_transition_graph STATES_example (analyzer_of [10, 11]) None (- 1)
     = Inr \<lparr>graph_nodes = [(''sand'', Some 0), (''air'', None)],
            graph_edges = [(''sand'', ''air'', Infinite, 1)]\<rparr>"
  by code_simp

text \<open>
  Claim C10, amended: the graph computation has no check on the mean.  For every
  transition record whose duration list has arithmetic mean exactly 0, in a result whose
  codes are all keys of the table, the computation raises nothing and returns a graph in
  which the edge of that record has an infinite rate and the record's count.
\<close>

theorem zero_mean_gives_infinite_rate:
  assumes tr: "get_mouse_state_transitions STATES a sts thr = Inr tr"
    and r: "(t, ls) \<in> set tr"
    and mean: "np_mean ls = Finite 0"
    and keys: "\<forall>r \<in> set tr. fst (fst r) \<in> set (map fst STATES) \<and> snd (fst r) \<in> set (map fst STATES)"
  shows "\<exists>g u v. get_mouse_transition_graph STATES a sts thr = Inr g
     \<and> map_of STATES (fst t) = Some u \<and> map_of STATES (snd t) = Some v
     \<and> (u, v, Infinite, length ls) \<in> set (graph_edges g)"
proof -
  have ok: "\<forall>r \<in> set tr. \<exists>e. record_edge STATES r = Inr e"
  proof
    fix r assume "r \<in> set tr"
    with keys have "fst (fst r) \<in> fst ` set STATES" "snd (fst r) \<in> fst ` set STATES" by auto
    then obtain u v where "map_of STATES (fst (fst r)) = Some u" "map_of STATES (snd (fst r)) = Some v"
      by (metis map_of_eq_None_iff not_Some_eq)
    then show "\<exists>e. record_edge STATES r = Inr e" by (simp add: record_edge_def Let_def)
  qed
  from graph_loop_succeeds [OF ok] obtain g' ns'
    where l: "graph_loop STATES tr (empty_graph, []) = Inr (g', ns')" by blast
  define g where "g = fold (\<lambda>(node, duration) g. add_node node duration g) ns' g'"
  have G: "get_mouse_transition_graph STATES a sts thr = Inr g"
    by (simp add: get_mouse_transition_graph_def tr l g_def)
  from ok r obtain e where e: "record_edge STATES (t, ls) = Inr e" by blast
  then obtain u v where uv: "map_of STATES (fst t) = Some u" "map_of STATES (snd t) = Some v"
    by (auto simp: record_edge_def Let_def split: option.splits)
  then have "record_edge STATES (t, ls) = Inr (u, v, Infinite, length ls)"
    by (simp add: record_edge_def Let_def mean)
  then have "Inr (u, v, Infinite, length ls) \<in> set (map (record_edge STATES) tr)"
    using r by force
  then have "(u, v, Infinite, length ls) \<in> set (graph_edges g)"
    unfolding transition_graph_edges [OF tr G, symmetric] by auto
  with G uv show ?thesis by blast
qed

theorem zero_mean_gives_infinite_rate_witness:
  "get_mouse_state_transitions STATES_example (analyzer_of [10, 11]) None (- 1)
     = Inr [((10, 11), [0])]
   \<and> np_mean [0] = Finite 0
   \<and> (\<exists>g. get_mouse_transition_graph STATES_example (analyzer_of [10, 11]) None (- 1) = Inr g
          \<and> (''sand'', ''air'', Infinite, 1) \<in> set (graph_edges g))"
proof -
  let ?a = "analyzer_of [10, 11]"
  let ?tr = "[((10, 11), [0])] :: transitions"
  have tr: "get_mouse_state_transitions STATES_example ?a None (- 1) = Inr ?tr"
    by code_simp
  have r: "((10, 11), [0]) \<in> set ?tr" by simp
  have mean: "np_mean [0] = Finite 0" by (simp add: np_mean_def)
  have keys: "\<forall>r \<in> set ?tr. fst (fst r) \<in> set (map fst STATES_example)
      \<and> snd (fst r) \<in> set (map fst STATES_example)"
    by (simp add: STATES_example_def)
  from zero_mean_gives_infinite_rate [OF tr r mean keys]
  obtain g u v where g: "get_mouse_transition_graph STATES_example ?a None (- 1) = Inr g"
    and u: "map_of STATES_example (fst (10 :: int, 11 :: int)) = Some u"
    and v: "map_of STATES_example (snd (10 :: int, 11 :: int)) = Some v"
    and e: "(u, v, Infinite, length [0 :: rat]) \<in> set (graph_edges g)"
    by blast
  from u have "u = ''sand''" by (simp add: STATES_example_def)
  moreover from v have "v = ''air''" by (simp add: STATES_example_def)
  ultimately have "(''sand'', ''air'', Infinite, 1) \<in> set (graph_edges g)"
    using e by simp
  with tr mean g show ?thesis by blast
qed

end
